theory Spec2Isabelle
  imports Complex_Main "HOL-Library.Sublist"
begin

chapter \<open>The embedding\<close>

section \<open>Python values shared by the modules\<close>

text \<open>
  Python floats are modelled as exact reals: every statement below about a float is a
  statement about the real number the float computation approximates. The one exception
  is \<open>np.power\<close>, whose underflow to 0.0 is modelled (\<open>np_power\<close>). Python unicode
  strings are modelled as \<open>string\<close>, one \<open>char\<close> per code point below 256.
  Exceptions are values of \<open>py_error\<close>; a function that can raise returns
  \<open>py_error + 'a\<close>, with \<open>Inl\<close> the exception that escapes.
\<close>

datatype py_error =
    ValueError
  | IndexError
  | TypeError
  | ZeroDivisionError
  | Exception string

subsection \<open>Characters and strings\<close>

text \<open>The character classes of \<open>re\<close> without flags: \<open>[0-9]\<close> and \<open>\d\<close>, \<open>\s\<close>, \<open>\w\<close>.\<close>

definition is_digit :: "char \<Rightarrow> bool" where
  "is_digit c = (48 \<le> (of_char c :: nat) \<and> (of_char c :: nat) \<le> 57)"

definition is_space :: "char \<Rightarrow> bool" where
  "is_space c = ((9 \<le> (of_char c :: nat) \<and> (of_char c :: nat) \<le> 13) \<or> (of_char c :: nat) = 32)"

definition is_word :: "char \<Rightarrow> bool" where
  "is_word c =
     (is_digit c \<or> (65 \<le> (of_char c :: nat) \<and> (of_char c :: nat) \<le> 90)
        \<or> (97 \<le> (of_char c :: nat) \<and> (of_char c :: nat) \<le> 122) \<or> c = CHR ''_'')"

definition is_digit_or_dot :: "char \<Rightarrow> bool" where
  "is_digit_or_dot c = (is_digit c \<or> c = CHR ''.'')"

text \<open>
  The characters \<open>unicode.strip()\<close> removes (those with \<open>isspace()\<close> true), among the
  code points below 256: U+0009 to U+000D, U+001C to U+0020, U+0085 and U+00A0.
\<close>

definition is_uspace :: "char \<Rightarrow> bool" where
  "is_uspace c =
     ((9 \<le> (of_char c :: nat) \<and> (of_char c :: nat) \<le> 13)
        \<or> (28 \<le> (of_char c :: nat) \<and> (of_char c :: nat) \<le> 32)
        \<or> (of_char c :: nat) = 133 \<or> (of_char c :: nat) = 160)"

definition py_strip :: "string \<Rightarrow> string" where
  "py_strip s = rev (dropWhile is_uspace (rev (dropWhile is_uspace s)))"

text \<open>\<open>sub in s\<close> on strings: \<open>sub\<close> occurs in \<open>s\<close> as a contiguous substring.\<close>

primrec py_in :: "string \<Rightarrow> string \<Rightarrow> bool" where
  "py_in sub [] = (sub = [])"
| "py_in sub (c # cs) = (prefix sub (c # cs) \<or> py_in sub cs)"

text \<open>\<open>s.split(c)\<close> for a separator of one character.\<close>

primrec py_split :: "char \<Rightarrow> string \<Rightarrow> string list" where
  "py_split c [] = [[]]"
| "py_split c (x # xs) =
     (if x = c then [] # py_split c xs
      else (case py_split c xs of [] \<Rightarrow> [[x]] | w # ws \<Rightarrow> (x # w) # ws))"

text \<open>\<open>s.split(sep)[0]\<close> for a non-empty separator: the text before its first occurrence.\<close>

primrec split_head :: "string \<Rightarrow> string \<Rightarrow> string" where
  "split_head sep [] = []"
| "split_head sep (x # xs) = (if prefix sep (x # xs) then [] else x # split_head sep xs)"

text \<open>The value of a string of decimal digits, and \<open>str(n)\<close> for a natural number.\<close>

definition digit_val :: "char \<Rightarrow> nat" where
  "digit_val c = of_char c - 48"

definition digits_value :: "string \<Rightarrow> nat" where
  "digits_value ds = foldl (\<lambda>a c. 10 * a + digit_val c) 0 ds"

definition digit_char :: "nat \<Rightarrow> char" where
  "digit_char d = ''0123456789'' ! d"

fun str_nat :: "nat \<Rightarrow> string" where
  "str_nat n = (if n < 10 then [digit_char n] else str_nat (n div 10) @ [digit_char (n mod 10)])"

text \<open>
  \<open>int(s)\<close> on a string: surrounding whitespace is dropped, one sign is allowed, and the
  rest must be one or more decimal digits; anything else raises ValueError.
\<close>

definition py_int :: "string \<Rightarrow> py_error + int" where
  "py_int s =
     (let t = py_strip s;
          neg = (t \<noteq> [] \<and> hd t = CHR ''-'');
          ds = (if t \<noteq> [] \<and> (hd t = CHR ''-'' \<or> hd t = CHR ''+'') then tl t else t)
      in if ds \<noteq> [] \<and> list_all is_digit ds
         then Inr (if neg then - int (digits_value ds) else int (digits_value ds))
         else Inl ValueError)"

text \<open>
  \<open>float(s)\<close> on a string of digits and dots (the only strings the body-specification
  pattern passes to it): at most one dot and at least one digit, else ValueError.
\<close>

definition py_float :: "string \<Rightarrow> py_error + real" where
  "py_float s =
     (let ip = takeWhile is_digit s; r = dropWhile is_digit s
      in if r = [] then
           (if ip = [] then Inl ValueError else Inr (real (digits_value ip)))
         else if hd r = CHR ''.'' \<and> list_all is_digit (tl r) \<and> \<not> (ip = [] \<and> tl r = [])
           then Inr (real (digits_value ip) + real (digits_value (tl r)) / 10 ^ length (tl r))
         else Inl ValueError)"

text \<open>\<open>xs.index(x)\<close>: the first position of \<open>x\<close>, or ValueError.\<close>

primrec first_index :: "'a list \<Rightarrow> 'a \<Rightarrow> nat" where
  "first_index [] x = 0"
| "first_index (y # ys) x = (if y = x then 0 else Suc (first_index ys x))"

definition py_index :: "'a list \<Rightarrow> 'a \<Rightarrow> py_error + nat" where
  "py_index xs x = (if x \<in> set xs then Inr (first_index xs x) else Inl ValueError)"

subsection \<open>datetime and timedelta\<close>

text \<open>
  A \<open>datetime\<close> with its seven fields, the proleptic Gregorian ordinal of its date as
  \<open>datetime.toordinal\<close> computes it, and the difference of two datetimes in
  microseconds. A \<open>timedelta\<close> is normalised so that its \<open>days\<close> is the floor of the
  difference in days; \<open>total_seconds()\<close> is the difference in seconds.
\<close>

record datetime =
  dt_year :: int
  dt_month :: int
  dt_day :: int
  dt_hour :: int
  dt_minute :: int
  dt_second :: int
  dt_microsecond :: int

definition is_leap :: "int \<Rightarrow> bool" where
  "is_leap y = (y mod 4 = 0 \<and> (if y mod 100 = 0 then y mod 400 = 0 else True))"

definition days_in_month :: "int \<Rightarrow> int \<Rightarrow> int" where
  "days_in_month y m =
     (if m = 2 then (if is_leap y then 29 else 28)
      else if m = 4 \<or> m = 6 \<or> m = 9 \<or> m = 11 then 30 else 31)"

definition days_before_year :: "int \<Rightarrow> int" where
  "days_before_year y = (y - 1) * 365 + (y - 1) div 4 - (y - 1) div 100 + (y - 1) div 400"

definition days_before_month :: "int \<Rightarrow> int \<Rightarrow> int" where
  "days_before_month y m =
     [0, 31, 59, 90, 120, 151, 181, 212, 243, 273, 304, 334] ! nat (m - 1)
       + (if 2 < m \<and> is_leap y then 1 else 0)"

definition toordinal :: "datetime \<Rightarrow> int" where
  "toordinal d = days_before_year (dt_year d) + days_before_month (dt_year d) (dt_month d) + dt_day d"

definition to_microseconds :: "datetime \<Rightarrow> int" where
  "to_microseconds d =
     ((toordinal d * 86400 + dt_hour d * 3600 + dt_minute d * 60 + dt_second d) * 1000000
        + dt_microsecond d)"

definition timedelta_days :: "datetime \<Rightarrow> datetime \<Rightarrow> int" where
  "timedelta_days a b = (to_microseconds a - to_microseconds b) div 86400000000"

definition timedelta_total_seconds :: "datetime \<Rightarrow> datetime \<Rightarrow> real" where
  "timedelta_total_seconds a b = real_of_int (to_microseconds a - to_microseconds b) / 1000000"

definition mk_date :: "int \<Rightarrow> int \<Rightarrow> int \<Rightarrow> datetime" where
  "mk_date y m d =
     \<lparr>dt_year = y, dt_month = m, dt_day = d, dt_hour = 0, dt_minute = 0, dt_second = 0,
      dt_microsecond = 0\<rparr>"

section \<open>ml\_fxns.py\<close>

subsection \<open>map\_rank\<close>

definition title_list :: "string list" where
  "title_list = [''Maegashira'', ''Juryo'', ''Makushita'', ''Sandanme'', ''Jonidan'', ''Jonokuchi'']"

definition offset_list :: "int list" where
  "offset_list = [4, 21, 35, 95, 195, 320]"

text \<open>
  The loop over \<open>title_list\<close>: at the first title that occurs in the label, the number
  after the first space plus the title's offset is the result (\<open>Some\<close>; an IndexError when
  the label has no space, a ValueError when the text after it is not an integer), and the
  loop ends. \<open>None\<close> when no title occurs.
\<close>

primrec map_rank_loop :: "string list \<Rightarrow> string \<Rightarrow> (py_error + int) option" where
  "map_rank_loop [] current_rank = None"
| "map_rank_loop (title # titles) current_rank =
     (if py_in title current_rank then
        (let ind = first_index title_list title;
             offset = offset_list ! ind;
             parse_list = py_split CHR '' '' current_rank
         in if length parse_list < 2 then Some (Inl IndexError)
            else (case py_int (parse_list ! 1) of
                    Inl e \<Rightarrow> Some (Inl e)
                  | Inr n \<Rightarrow> Some (Inr (n + offset))))
      else map_rank_loop titles current_rank)"

definition map_rank :: "string \<Rightarrow> py_error + int" where
  "map_rank current_rank =
     (let num_rank0 = None;
          num_rank1 = (if py_in ''Yokozuna'' current_rank then Some 1 else num_rank0);
          num_rank2 = (if py_in ''Ozeki'' current_rank then Some 2 else num_rank1);
          num_rank3 = (if py_in ''Sekiwake'' current_rank then Some 3 else num_rank2);
          num_rank4 = (if py_in ''Komusubi'' current_rank then Some 4 else num_rank3)
      in case map_rank_loop title_list current_rank of
           Some r \<Rightarrow> r
         | None \<Rightarrow>
             (case num_rank4 of
                None \<Rightarrow> Inl (Exception ''Unable to map categorical rank to numerical value.'')
              | Some n \<Rightarrow> Inr n))"

text \<open>The label \<open><TierName> N\<close> of a numbered tier.\<close>

definition rank_label :: "string \<Rightarrow> nat \<Rightarrow> string" where
  "rank_label title n = title @ '' '' @ str_nat n"

text \<open>
  The order of two results of \<open>map_rank\<close>: both are ranks and the first is the smaller.
  The sizes of the numbered tiers are the ranges the docstring of \<open>map_rank\<close> gives
  (5 to 21, 22 to 35, 36 to 95, 96 to 195, 196 to 320, 321 to 365).
\<close>

definition rank_lt :: "py_error + int \<Rightarrow> py_error + int \<Rightarrow> bool" where
  "rank_lt a b = (case a of Inl _ \<Rightarrow> False | Inr x \<Rightarrow> (case b of Inl _ \<Rightarrow> False | Inr y \<Rightarrow> x < y))"

definition tier_size_list :: "nat list" where
  "tier_size_list = [17, 14, 60, 100, 125, 45]"

subsection \<open>discount\_weight\<close>

text \<open>
  \<open>np.power\<close> on doubles with a positive base: the real power \<open>powr\<close>, and 0.0 when the
  real power is at most \<open>2 ^ -1075\<close>, half the smallest positive double, which is rounded to
  zero (underflow). The rounding of a result that does not underflow is not modelled.
\<close>

definition np_power :: "real \<Rightarrow> real \<Rightarrow> real" where
  "np_power x t = (if x powr t \<le> 1 / 2 ^ 1075 then 0 else x powr t)"

text \<open>
  \<open>np.linspace(0, 10, N)\<close> with \<open>N = 100\<close>, the curve
  \<open>np.power(np.ones(N) * discount_factor, time)\<close> capped at \<open>discount_factor\<close>, and
  \<open>argmin\<close>: the first position of the least element.
\<close>

definition time_grid :: "real list" where
  "time_grid = map (\<lambda>i. 10 * real i / 99) [0..<100]"

definition discount_weights :: "real \<Rightarrow> real list" where
  "discount_weights discount_factor =
     map (\<lambda>t. min (np_power discount_factor t) discount_factor) time_grid"

definition argmin :: "real list \<Rightarrow> nat" where
  "argmin xs = first_index xs (Min (set xs))"

definition years_since :: "datetime \<Rightarrow> datetime \<Rightarrow> real" where
  "years_since current_date previous_date =
     real_of_int (timedelta_days current_date previous_date) / 365.25"

definition discount_weight :: "datetime \<Rightarrow> datetime \<Rightarrow> real \<Rightarrow> real" where
  "discount_weight current_date previous_date discount_factor =
     (if years_since current_date previous_date \<le> 1 then discount_factor
      else (let ind = argmin (map (\<lambda>t. \<bar>t - years_since current_date previous_date\<bar>) time_grid)
            in discount_weights discount_factor ! ind))"

text \<open>The position of the grid point nearest to \<open>y\<close>, as \<open>discount_weight\<close> looks it up.\<close>

definition nearest :: "real \<Rightarrow> nat" where
  "nearest y = argmin (map (\<lambda>t. \<bar>t - y\<bar>) time_grid)"

subsection \<open>calculate\_h2h\_wp\<close>

text \<open>
  A row of the table of previous matches, and the three lists the loop fills. A row
  whose identifiers or outcomes fit no branch adds its weight to \<open>weight_list\<close> only.
\<close>

record h2h_row =
  h_date :: datetime
  h_ID1 :: int
  h_ID2 :: int
  h_outcome1 :: string
  h_outcome2 :: string

record h2h_acc =
  weight_list :: "real list"
  numerator1 :: "real list"
  numerator2 :: "real list"

definition h2h_step :: "datetime \<Rightarrow> int \<Rightarrow> h2h_acc \<Rightarrow> h2h_row \<Rightarrow> h2h_acc" where
  "h2h_step current_date ID1 acc row =
     (let weight = discount_weight current_date (h_date row) 0.8;
          acc1 = acc\<lparr>weight_list := weight_list acc @ [weight]\<rparr>
      in if h_ID1 row = ID1 then
           (if h_outcome1 row = ''shiro'' \<and> h_outcome2 row = ''kuro'' then
              acc1\<lparr>numerator1 := numerator1 acc1 @ [weight], numerator2 := numerator2 acc1 @ [0]\<rparr>
            else if h_outcome1 row = ''kuro'' \<and> h_outcome2 row = ''shiro'' then
              acc1\<lparr>numerator1 := numerator1 acc1 @ [0], numerator2 := numerator2 acc1 @ [weight]\<rparr>
            else acc1)
         else if h_ID2 row = ID1 then
           (if h_outcome1 row = ''shiro'' \<and> h_outcome2 row = ''kuro'' then
              acc1\<lparr>numerator1 := numerator1 acc1 @ [0], numerator2 := numerator2 acc1 @ [weight]\<rparr>
            else if h_outcome1 row = ''kuro'' \<and> h_outcome2 row = ''shiro'' then
              acc1\<lparr>numerator1 := numerator1 acc1 @ [weight], numerator2 := numerator2 acc1 @ [0]\<rparr>
            else acc1)
         else acc1)"

definition calculate_h2h_wp :: "datetime \<Rightarrow> h2h_row list \<Rightarrow> int \<Rightarrow> py_error + real \<times> real" where
  "calculate_h2h_wp current_date rel_df ID1 =
     (if rel_df = [] then Inr (0.5, 0.5)
      else
        (let acc = foldl (h2h_step current_date ID1)
                     \<lparr>weight_list = [], numerator1 = [], numerator2 = []\<rparr> rel_df
         in if sum_list (weight_list acc) = 0 then Inl ZeroDivisionError
            else Inr (sum_list (numerator1 acc) / sum_list (weight_list acc),
                      sum_list (numerator2 acc) / sum_list (weight_list acc))))"

text \<open>
  A row with a clean win/loss outcome pair: one side shiro (win), the other kuro (loss).
  The invariant of the loop of \<open>calculate_h2h_wp\<close> on such rows: the two numerators
  add up to the total weight, and neither is negative.
\<close>

definition clean_outcome :: "h2h_row \<Rightarrow> bool" where
  "clean_outcome row =
     ((h_outcome1 row = ''shiro'' \<and> h_outcome2 row = ''kuro'')
        \<or> (h_outcome1 row = ''kuro'' \<and> h_outcome2 row = ''shiro''))"

definition h2h_inv :: "h2h_acc \<Rightarrow> bool" where
  "h2h_inv acc =
     (sum_list (numerator1 acc) + sum_list (numerator2 acc) = sum_list (weight_list acc)
      \<and> 0 \<le> sum_list (numerator1 acc) \<and> 0 \<le> sum_list (numerator2 acc))"

text \<open>Two previous matches of the competitors 10 and 20, stored in both orientations.\<close>

definition row_a :: h2h_row where
  "row_a = \<lparr>h_date = mk_date 2016 11 1, h_ID1 = 10, h_ID2 = 20, h_outcome1 = ''shiro'', h_outcome2 = ''kuro''\<rparr>"

definition row_b :: h2h_row where
  "row_b = \<lparr>h_date = mk_date 2015 1 1, h_ID1 = 20, h_ID2 = 10, h_outcome1 = ''shiro'', h_outcome2 = ''kuro''\<rparr>"

section \<open>feature\_generation.py: the feature dictionary of one match\<close>

text \<open>
  The dictionary built in the loop body of feature\_generation.py (the branch on
  \<open>order\<close>). The six differences, the two identifiers and the two outcome codes are
  the values the loop body has computed before it draws \<open>order\<close>. \<open>None\<close> is the
  empty dictionary, which the script does not append.
\<close>

record feature_row =
  f_height_diff :: real
  f_weight_diff :: real
  f_age_diff :: real
  f_active_diff :: real
  f_rank_diff :: int
  f_h2h_diff :: real
  f_ID1 :: int
  f_ID2 :: int
  f_label :: int

definition feature_dict ::
  "int \<Rightarrow> real \<Rightarrow> real \<Rightarrow> real \<Rightarrow> real \<Rightarrow> int \<Rightarrow> real \<Rightarrow> int \<Rightarrow> int \<Rightarrow> string \<Rightarrow> string
     \<Rightarrow> feature_row option" where
  "feature_dict order height_diff weight_diff age_diff active_diff rank_diff h2h_diff
       ID1 ID2 outcome1 outcome2 =
    (if order = 1 then
       (if outcome1 = ''shiro'' \<and> outcome2 = ''kuro'' then
          Some \<lparr>f_height_diff = height_diff, f_weight_diff = weight_diff,
                f_age_diff = age_diff, f_active_diff = active_diff,
                f_rank_diff = rank_diff, f_h2h_diff = h2h_diff,
                f_ID1 = ID1, f_ID2 = ID2, f_label = 1\<rparr>
        else if outcome1 = ''kuro'' \<and> outcome2 = ''shiro'' then
          Some \<lparr>f_height_diff = height_diff, f_weight_diff = weight_diff,
                f_age_diff = age_diff, f_active_diff = active_diff,
                f_rank_diff = rank_diff, f_h2h_diff = h2h_diff,
                f_ID1 = ID1, f_ID2 = ID2, f_label = 0\<rparr>
        else None)
     else if order = 2 then
       (if outcome2 = ''shiro'' \<and> outcome1 = ''kuro'' then
          Some \<lparr>f_height_diff = - height_diff, f_weight_diff = - weight_diff,
                f_age_diff = - age_diff, f_active_diff = - active_diff,
                f_rank_diff = - rank_diff, f_h2h_diff = - h2h_diff,
                f_ID1 = ID2, f_ID2 = ID1, f_label = 1\<rparr>
        else if outcome2 = ''kuro'' \<and> outcome1 = ''shiro'' then
          Some \<lparr>f_height_diff = - height_diff, f_weight_diff = - weight_diff,
                f_age_diff = - age_diff, f_active_diff = - active_diff,
                f_rank_diff = - rank_diff, f_h2h_diff = - h2h_diff,
                f_ID1 = ID2, f_ID2 = ID1, f_label = 0\<rparr>
        else None)
     else None)"

text \<open>
  The operation the swap-invariance property applies to a row: every difference field is
  negated and the two identifiers are exchanged; the label is left as it is.
\<close>

definition negate_and_exchange :: "feature_row \<Rightarrow> feature_row" where
  "negate_and_exchange r =
     \<lparr>f_height_diff = - f_height_diff r, f_weight_diff = - f_weight_diff r,
      f_age_diff = - f_age_diff r, f_active_diff = - f_active_diff r,
      f_rank_diff = - f_rank_diff r, f_h2h_diff = - f_h2h_diff r,
      f_ID1 = f_ID2 r, f_ID2 = f_ID1 r, f_label = f_label r\<rparr>"

text \<open>The same operation followed by complementing the binary label.\<close>

definition negate_exchange_flip :: "feature_row \<Rightarrow> feature_row" where
  "negate_exchange_flip r = (negate_and_exchange r)\<lparr>f_label := 1 - f_label r\<rparr>"

section \<open>database\_ops.py: match\_ID\<close>

text \<open>
  A row of the reference table \<open>filtered_df\<close> (name, affiliation, birth date and debut
  are present in every row; height and weight may be missing), and the fields of the list
  \<open>basic_scrape\<close> returns that \<open>match_ID\<close> reads. \<open>basic_scrape\<close> fetches a page
  over the network: it is a parameter of the model, and may raise.
\<close>

record rikishi =
  r_rikishi_ID :: int
  r_shikona :: string
  r_sumo_stable :: string
  r_bday :: datetime
  r_debut :: datetime
  r_height :: "real option"
  r_weight :: "real option"

record compiled_stats =
  cs_shikona :: string
  cs_bday :: "datetime option"
  cs_height :: "real option"
  cs_weight :: "real option"
  cs_sumo_stable :: "string option"
  cs_debut :: "datetime option"

text \<open>
  What a call evaluates, in order: the name and affiliation filter, the filter with the
  two date conditions added, and the fetch of the profile at a URL.
\<close>

datatype resolver_step = Tier1_filter | Tier2_filter | Live_fetch string

text \<open>The three filters, as conditions on one row.\<close>

definition tier1_match :: "string \<Rightarrow> string \<Rightarrow> rikishi \<Rightarrow> bool" where
  "tier1_match shikona sumo_stable r =
     (py_in shikona (r_shikona r) \<and> py_in sumo_stable (r_sumo_stable r))"

definition tier2_match :: "string \<Rightarrow> string \<Rightarrow> datetime \<Rightarrow> datetime \<Rightarrow> rikishi \<Rightarrow> bool" where
  "tier2_match shikona sumo_stable bday debut r =
     (py_in shikona (r_shikona r) \<and> py_in sumo_stable (r_sumo_stable r)
      \<and> \<bar>timedelta_total_seconds bday (r_bday r)\<bar> \<le> 365 * 86400
      \<and> \<bar>timedelta_total_seconds debut (r_debut r)\<bar> \<le> 365 * 86400)"

text \<open>
  The comparison of a column with a scraped value: a missing value on either side
  compares unequal.
\<close>

definition tier3_match :: "compiled_stats \<Rightarrow> rikishi \<Rightarrow> bool" where
  "tier3_match stats r =
     (r_shikona r = cs_shikona stats \<and> Some (r_bday r) = cs_bday stats
      \<and> r_height r \<noteq> None \<and> r_height r = cs_height stats
      \<and> r_weight r \<noteq> None \<and> r_weight r = cs_weight stats
      \<and> Some (r_sumo_stable r) = cs_sumo_stable stats \<and> Some (r_debut r) = cs_debut stats)"

text \<open>
  \<open>match_ID\<close> returns the steps it evaluated and its result. \<open>.item()\<close> on a
  selection of other than one row raises ValueError (the third tier); with no identifier
  found by the first two tiers the function raises its own exception.
\<close>

definition match_ID ::
  "(string \<Rightarrow> py_error + compiled_stats) \<Rightarrow> string \<Rightarrow> string \<Rightarrow> datetime \<Rightarrow> datetime
     \<Rightarrow> rikishi list \<Rightarrow> string \<Rightarrow> resolver_step list \<times> (py_error + int)" where
  "match_ID basic_scrape shikona sumo_stable bday debut filtered_df rikishi_url =
     (let ID_df = filter (tier1_match shikona sumo_stable) filtered_df
      in if length ID_df = 1 then ([Tier1_filter], Inr (r_rikishi_ID (hd ID_df)))
         else if length ID_df > 1 then
           (let ID_df2 = filter (tier2_match shikona sumo_stable bday debut) filtered_df
            in if length ID_df2 = 1 then ([Tier1_filter, Tier2_filter], Inr (r_rikishi_ID (hd ID_df2)))
               else if length ID_df2 > 1 then
                 (case basic_scrape rikishi_url of
                    Inl e \<Rightarrow> ([Tier1_filter, Tier2_filter, Live_fetch rikishi_url], Inl e)
                  | Inr stats \<Rightarrow>
                      (let sel = filter (tier3_match stats) filtered_df
                       in if length sel = 1
                          then ([Tier1_filter, Tier2_filter, Live_fetch rikishi_url],
                                Inr (r_rikishi_ID (hd sel)))
                          else ([Tier1_filter, Tier2_filter, Live_fetch rikishi_url], Inl ValueError)))
               else ([Tier1_filter, Tier2_filter],
                     Inl (Exception (''Could not find sumo ID for: '' @ shikona))))
         else ([Tier1_filter], Inl (Exception (''Could not find sumo ID for: '' @ shikona))))"

text \<open>A reference table of three rows, two of them in the same stable with similar names.\<close>

definition table3 :: "rikishi list" where
  "table3 =
     [\<lparr>r_rikishi_ID = 1123, r_shikona = ''Hakuho Sho'', r_sumo_stable = ''Miyagino'',
       r_bday = mk_date 1985 3 11, r_debut = mk_date 2001 3 1,
       r_height = Some 192, r_weight = Some 155\<rparr>,
      \<lparr>r_rikishi_ID = 7, r_shikona = ''Wakanohana Masaru'', r_sumo_stable = ''Futagoyama'',
       r_bday = mk_date 1971 1 20, r_debut = mk_date 1988 3 1,
       r_height = Some 180, r_weight = Some 134\<rparr>,
      \<lparr>r_rikishi_ID = 8, r_shikona = ''Wakanohana Kanji'', r_sumo_stable = ''Futagoyama'',
       r_bday = mk_date 1953 4 3, r_debut = mk_date 1968 7 1,
       r_height = Some 186, r_weight = Some 129\<rparr>]"

definition no_network :: "string \<Rightarrow> py_error + compiled_stats" where
  "no_network url = Inl (Exception ''urlopen error'')"

section \<open>data\_extraction.py\<close>

subsection \<open>Patterns\<close>

text \<open>
  The regular expressions are matched by \<open>re.match\<close>, so at the start of the string;
  \<open>$\<close> matches at the end of the string and before a newline that ends it. In each
  pattern a repetition is followed by characters outside its class, so the greedy match
  is the only one, and the groups are the maximal runs computed below.
\<close>

definition newline :: char where
  "newline = CHR 0x0A"

definition at_end :: "string \<Rightarrow> bool" where
  "at_end s = (s = [] \<or> s = [newline])"

text \<open>\<open>[a-zA-z]\<close> is the range from \<open>A\<close> to \<open>z\<close>; \<open>[a-zA-Z]\<close> the letters.\<close>

definition is_A_to_z :: "char \<Rightarrow> bool" where
  "is_A_to_z c = (65 \<le> (of_char c :: nat) \<and> (of_char c :: nat) \<le> 122)"

definition is_letter :: "char \<Rightarrow> bool" where
  "is_letter c =
     ((65 \<le> (of_char c :: nat) \<and> (of_char c :: nat) \<le> 90)
        \<or> (97 \<le> (of_char c :: nat) \<and> (of_char c :: nat) \<le> 122))"

subsection \<open>datetime.strptime\<close>

text \<open>
  \<open>datetime.strptime\<close> for the four formats the module uses: \<open>'%B %d, %Y'\<close>,
  \<open>'%B %Y'\<close>, \<open>'%Y'\<close> and \<open>'%Y.%m'\<close>. \<open>None\<close> is the ValueError it raises when
  the text does not match the format, when text remains after the match, or when the date
  does not exist. \<open>%Y\<close> is four digits; \<open>%m\<close> is 1 to 12 in one or two digits; \<open>%d\<close> is
  1 to 31 in one or two digits; \<open>%B\<close> is a full English month name in any case; a space
  of the format matches one or more whitespace characters.
\<close>

datatype fmt = Fmt_B_d_Y | Fmt_B_Y | Fmt_Y | Fmt_Y_m

definition month_names :: "(string \<times> int) list" where
  "month_names =
     [(''september'', 9), (''february'', 2), (''november'', 11), (''december'', 12),
      (''january'', 1), (''october'', 10), (''august'', 8), (''march'', 3), (''april'', 4),
      (''june'', 6), (''july'', 7), (''may'', 5)]"

definition ci_eq :: "char \<Rightarrow> char \<Rightarrow> bool" where
  "ci_eq p c =
     (c = p \<or> (65 \<le> (of_char c :: nat) \<and> (of_char c :: nat) \<le> 90
                \<and> (of_char c :: nat) + 32 = of_char p))"

definition ci_prefix :: "string \<Rightarrow> string \<Rightarrow> bool" where
  "ci_prefix name s = (length name \<le> length s \<and> list_all2 ci_eq name (take (length name) s))"

definition parse_B :: "string \<Rightarrow> (int \<times> string) option" where
  "parse_B s =
     (case find (\<lambda>(name, m). ci_prefix name s) month_names of
        None \<Rightarrow> None
      | Some (name, m) \<Rightarrow> Some (m, drop (length name) s))"

definition parse_spaces :: "string \<Rightarrow> string option" where
  "parse_spaces s = (if s \<noteq> [] \<and> is_space (hd s) then Some (dropWhile is_space s) else None)"

definition parse_Y :: "string \<Rightarrow> (int \<times> string) option" where
  "parse_Y s =
     (if 4 \<le> length s \<and> list_all is_digit (take 4 s)
      then Some (int (digits_value (take 4 s)), drop 4 s) else None)"

definition parse_upto :: "nat \<Rightarrow> string \<Rightarrow> int option" where
  "parse_upto bound ds =
     (if (length ds = 1 \<or> length ds = 2) \<and> list_all is_digit ds
         \<and> 1 \<le> digits_value ds \<and> digits_value ds \<le> bound
      then Some (int (digits_value ds)) else None)"

definition make_date :: "int \<Rightarrow> int \<Rightarrow> int \<Rightarrow> datetime option" where
  "make_date y m d = (if 1 \<le> y \<and> 1 \<le> d \<and> d \<le> days_in_month y m then Some (mk_date y m d) else None)"

fun strptime :: "string \<Rightarrow> fmt \<Rightarrow> datetime option" where
  "strptime s Fmt_Y =
     (case parse_Y s of
        Some (y, r) \<Rightarrow> (if r = [] then make_date y 1 1 else None)
      | None \<Rightarrow> None)"
| "strptime s Fmt_Y_m =
     (case parse_Y s of
        Some (y, r) \<Rightarrow>
          (if r \<noteq> [] \<and> hd r = CHR ''.'' then
             (case parse_upto 12 (tl r) of Some m \<Rightarrow> make_date y m 1 | None \<Rightarrow> None)
           else None)
      | None \<Rightarrow> None)"
| "strptime s Fmt_B_Y =
     (case parse_B s of
        Some (m, r) \<Rightarrow>
          (case parse_spaces r of
             Some r1 \<Rightarrow>
               (case parse_Y r1 of
                  Some (y, r2) \<Rightarrow> (if r2 = [] then make_date y m 1 else None)
                | None \<Rightarrow> None)
           | None \<Rightarrow> None)
      | None \<Rightarrow> None)"
| "strptime s Fmt_B_d_Y =
     (case parse_B s of
        Some (m, r) \<Rightarrow>
          (case parse_spaces r of
             Some r1 \<Rightarrow>
               (case parse_upto 31 (takeWhile is_digit r1) of
                  Some d \<Rightarrow>
                    (let r2 = dropWhile is_digit r1
                     in if r2 \<noteq> [] \<and> hd r2 = CHR '','' then
                          (case parse_spaces (tl r2) of
                             Some r3 \<Rightarrow>
                               (case parse_Y r3 of
                                  Some (y, r4) \<Rightarrow> (if r4 = [] then make_date y m d else None)
                                | None \<Rightarrow> None)
                           | None \<Rightarrow> None)
                        else None)
                | None \<Rightarrow> None)
           | None \<Rightarrow> None)
      | None \<Rightarrow> None)"

subsection \<open>extract\_years\<close>

text \<open>
  The pattern for the debut and the retirement,
  \<^verbatim>\<open>^([0-9.]+)(?:\s)?(?:\()?(\w+)?(?:\))?$|^(unknown)$\<close>, with its three groups (date, rank,
  unknown status).
\<close>

definition reg_exp :: "string \<Rightarrow> (string option \<times> string option \<times> string option) option" where
  "reg_exp s =
     (let g1 = takeWhile is_digit_or_dot s; r1 = dropWhile is_digit_or_dot s
      in if g1 \<noteq> [] then
           (let r2 = (if r1 \<noteq> [] \<and> is_space (hd r1) then tl r1 else r1);
                r3 = (if r2 \<noteq> [] \<and> hd r2 = CHR ''('' then tl r2 else r2);
                g2 = takeWhile is_word r3;
                r4 = dropWhile is_word r3;
                r5 = (if r4 \<noteq> [] \<and> hd r4 = CHR '')'' then tl r4 else r4)
            in if at_end r5 then Some (Some g1, if g2 = [] then None else Some g2, None)
               else None)
         else if s = ''unknown'' \<or> s = ''unknown'' @ [newline]
           then Some (None, None, Some ''unknown'')
         else None)"

record years_result =
  yr_bday :: "datetime option"
  yr_age :: "real option"
  yr_active_years :: "real option"
  yr_debut :: "datetime option"
  yr_entry_rank :: "string option"
  yr_retirement :: "datetime option"

text \<open>One round of the loop over the three birth-date formats.\<close>

definition bday_step :: "string \<Rightarrow> datetime option \<Rightarrow> fmt \<Rightarrow> datetime option" where
  "bday_step clean_date bday fmt =
     (case strptime clean_date fmt of
        None \<Rightarrow> bday
      | Some d \<Rightarrow> (if dt_year d < 1700 then None else Some d))"

text \<open>
  \<open>extract_years\<close>, with \<open>datetime.now()\<close> as the parameter \<open>now\<close>. Group 1 of the
  pattern is present whenever group 3 is not.
\<close>

definition extract_years :: "datetime \<Rightarrow> string \<Rightarrow> string \<Rightarrow> string \<Rightarrow> years_result" where
  "extract_years now birth_date hatsu_dohyo intai =
     (let clean_date = split_head '' ('' birth_date;
          bday = foldl (bday_step clean_date) None [Fmt_B_d_Y, Fmt_B_Y, Fmt_Y];
          debut_entry =
            (case reg_exp hatsu_dohyo of
               None \<Rightarrow> (None, None)
             | Some (g1, g2, g3) \<Rightarrow>
                 (if g3 \<noteq> Some ''unknown'' then
                    (case g1 of
                       None \<Rightarrow> (None, None)
                     | Some ds \<Rightarrow>
                         (case strptime ds Fmt_Y_m of
                            None \<Rightarrow> (None, None)
                          | Some d \<Rightarrow> (Some d, g2)))
                  else (None, None)));
          debut = fst debut_entry;
          entry_rank = snd debut_entry;
          retirement_known_date =
            (case reg_exp intai of
               None \<Rightarrow> (True, None)
             | Some (g1, g2, g3) \<Rightarrow>
                 (if g3 = Some ''unknown'' then (False, None)
                  else (case g1 of
                          None \<Rightarrow> (True, None)
                        | Some ds \<Rightarrow> (True, strptime ds Fmt_Y_m))));
          retirement_known = fst retirement_known_date;
          retirement = snd retirement_known_date
      in case retirement of
           Some ret \<Rightarrow>
             \<lparr>yr_bday = bday,
              yr_age = (case bday of
                          Some b \<Rightarrow> Some (real_of_int (timedelta_days ret b) / 365.25)
                        | None \<Rightarrow> None),
              yr_active_years = (case debut of
                          Some d \<Rightarrow> Some (real_of_int (timedelta_days ret d) / 365.25)
                        | None \<Rightarrow> None),
              yr_debut = debut, yr_entry_rank = entry_rank, yr_retirement = retirement\<rparr>
         | None \<Rightarrow>
             \<lparr>yr_bday = bday,
              yr_age = (case bday of
                          Some b \<Rightarrow> (if retirement_known
                                      then Some (real_of_int (timedelta_days now b) / 365.25)
                                      else None)
                        | None \<Rightarrow> None),
              yr_active_years = (case debut of
                          Some d \<Rightarrow> (if retirement_known
                                      then Some (real_of_int (timedelta_days now d) / 365.25)
                                      else None)
                        | None \<Rightarrow> None),
              yr_debut = debut, yr_entry_rank = entry_rank, yr_retirement = retirement\<rparr>)"

text \<open>The retirement field is annotated unknown: group 3 of the pattern is \<open>unknown\<close>.\<close>

definition annotated_unknown :: "string \<Rightarrow> bool" where
  "annotated_unknown intai =
     (case reg_exp intai of None \<Rightarrow> False | Some (g1, g2, g3) \<Rightarrow> g3 = Some ''unknown'')"

subsection \<open>extract\_body\_specs\<close>

text \<open>
  The pattern \<^verbatim>\<open>^([0-9.]+)\scm\s([0-9.]+)\skg$\<close> with its two groups, and
  \<open>float\<close> under \<open>try\<close> with \<open>except TypeError: pass\<close>: a TypeError leaves the value
  absent, any other exception escapes.
\<close>

definition body_regex :: "string \<Rightarrow> (string \<times> string) option" where
  "body_regex s =
     (let g1 = takeWhile is_digit_or_dot s; r1 = dropWhile is_digit_or_dot s
      in case r1 of
           w1 # c # m # w2 # r2 \<Rightarrow>
             (let g2 = takeWhile is_digit_or_dot r2; r3 = dropWhile is_digit_or_dot r2
              in case r3 of
                   w3 # k # g # r4 \<Rightarrow>
                     (if g1 \<noteq> [] \<and> is_space w1 \<and> c = CHR ''c'' \<and> m = CHR ''m'' \<and> is_space w2
                         \<and> g2 \<noteq> [] \<and> is_space w3 \<and> k = CHR ''k'' \<and> g = CHR ''g'' \<and> at_end r4
                      then Some (g1, g2) else None)
                 | _ \<Rightarrow> None)
         | _ \<Rightarrow> None)"

definition float_except_TypeError :: "string \<Rightarrow> py_error + real option" where
  "float_except_TypeError s =
     (case py_float s of
        Inr v \<Rightarrow> Inr (Some v)
      | Inl e \<Rightarrow> (if e = TypeError then Inr None else Inl e))"

definition extract_body_specs :: "string \<Rightarrow> py_error + (real option \<times> real option)" where
  "extract_body_specs ht_wt =
     (case body_regex ht_wt of
        None \<Rightarrow> Inr (None, None)
      | Some (stats0, stats1) \<Rightarrow>
          (case float_except_TypeError stats0 of
             Inl e \<Rightarrow> Inl e
           | Inr height \<Rightarrow>
               (case float_except_TypeError stats1 of
                  Inl e \<Rightarrow> Inl e
                | Inr weight \<Rightarrow> Inr (height, weight))))"

subsection \<open>extract\_h2h\_rank\<close>

text \<open>
  The pattern \<^verbatim>\<open>^([a-zA-z]+)(\d+)(?:[a-zA-Z]+)$\<close> with its two groups, and the
  two lists of the same order.
\<close>

definition rank_regex :: "string \<Rightarrow> (string \<times> string) option" where
  "rank_regex s =
     (let g1 = takeWhile is_A_to_z s; r1 = dropWhile is_A_to_z s;
          g2 = takeWhile is_digit r1; r2 = dropWhile is_digit r1;
          g3 = takeWhile is_letter r2; r3 = dropWhile is_letter r2
      in if g1 \<noteq> [] \<and> g2 \<noteq> [] \<and> g3 \<noteq> [] \<and> at_end r3 then Some (g1, g2) else None)"

definition abbrev_list :: "string list" where
  "abbrev_list = [''Y'', ''O'', ''S'', ''K'', ''M'', ''J'', ''Ms'', ''Sd'', ''Jd'', ''Jk'']"

definition full_list :: "string list" where
  "full_list = [''Yokozuna'', ''Ozeki'', ''Sekiwake'', ''Komusubi'', ''Maegashira'',
                ''Juryo'', ''Makushita'', ''Sandanme'', ''Jonidan'', ''Jonokuchi'']"

text \<open>The leading token of the raw string: \<open>rank_raw.strip().split(u' ')[0]\<close>.\<close>

definition rank_string :: "string \<Rightarrow> string" where
  "rank_string rank_raw = hd (py_split CHR '' '' (py_strip rank_raw))"

definition extract_h2h_rank :: "string \<Rightarrow> py_error + string option" where
  "extract_h2h_rank rank_raw =
     (case rank_regex (rank_string rank_raw) of
        None \<Rightarrow> Inr None
      | Some (rank_name, rank_num) \<Rightarrow>
          (case py_index abbrev_list rank_name of
             Inl e \<Rightarrow> Inl e
           | Inr ind \<Rightarrow> Inr (Some (full_list ! ind @ '' '' @ rank_num))))"

chapter \<open>Verification\<close>

section \<open>Strings and numerals\<close>

lemma py_in_sublist: "py_in sub s \<longleftrightarrow> sublist sub s"
  by (induction s) (auto simp: sublist_Cons_right)

lemma not_py_in: "c \<in> set sub \<Longrightarrow> c \<notin> set s \<Longrightarrow> \<not> py_in sub s"
  using set_mono_sublist [of sub s] by (auto simp: py_in_sublist)

lemma py_in_prefix: "py_in sub (sub @ rest)"
  by (simp add: py_in_sublist)

lemma digit_char_props:
  "d < 10 \<Longrightarrow> is_digit (digit_char d) \<and> digit_val (digit_char d) = d \<and> digit_char d \<in> set ''0123456789''"
proof -
  assume "d < 10"
  then have "d \<in> {0,1,2,3,4,5,6,7,8,9}" by auto
  then show ?thesis
    by (auto simp: digit_char_def is_digit_def digit_val_def)
qed

declare str_nat.simps [simp del]

lemma str_nat_digits: "set (str_nat n) \<subseteq> set ''0123456789''"
proof (induction n rule: str_nat.induct)
  case (1 n)
  show ?case
  proof (cases "n < 10")
    case True
    then show ?thesis using digit_char_props [of n] by (subst str_nat.simps) simp
  next
    case False
    then have "set (str_nat (n div 10)) \<subseteq> set ''0123456789''" using 1 by simp
    moreover have "digit_char (n mod 10) \<in> set ''0123456789''"
      using digit_char_props [of "n mod 10"] by simp
    ultimately show ?thesis using False by (subst str_nat.simps) simp
  qed
qed

lemma str_nat_nonempty: "str_nat n \<noteq> []"
  by (subst str_nat.simps) simp

lemma digits_value_snoc: "digits_value (ds @ [c]) = 10 * digits_value ds + digit_val c"
  by (simp add: digits_value_def)

lemma digits_value_str_nat: "digits_value (str_nat n) = n"
proof (induction n rule: str_nat.induct)
  case (1 n)
  show ?case
  proof (cases "n < 10")
    case True
    then show ?thesis using digit_char_props [of n]
      by (subst str_nat.simps) (simp add: digits_value_def)
  next
    case False
    then have "digits_value (str_nat (n div 10)) = n div 10" using 1 by simp
    then show ?thesis using False digit_char_props [of "n mod 10"]
      by (subst str_nat.simps) (simp add: digits_value_snoc)
  qed
qed

lemma is_digit_of_set: "c \<in> set ''0123456789'' \<Longrightarrow> is_digit c \<and> \<not> is_uspace c \<and> c \<noteq> CHR ''-'' \<and> c \<noteq> CHR ''+''"
  by (auto simp: is_digit_def is_uspace_def)

lemma py_strip_id: "s \<noteq> [] \<Longrightarrow> \<not> is_uspace (hd s) \<Longrightarrow> \<not> is_uspace (last s) \<Longrightarrow> py_strip s = s"
proof -
  assume a: "s \<noteq> []" "\<not> is_uspace (hd s)" "\<not> is_uspace (last s)"
  then have "dropWhile is_uspace s = s" by (cases s) auto
  moreover have "dropWhile is_uspace (rev s) = rev s"
    using a by (cases "rev s") (auto simp: hd_rev dest: arg_cong [where f = hd])
  ultimately show ?thesis by (simp add: py_strip_def)
qed

lemma py_int_str_nat: "py_int (str_nat n) = Inr (int n)"
proof -
  let ?s = "str_nat n"
  have ne: "?s \<noteq> []" by (rule str_nat_nonempty)
  have all: "\<forall>c \<in> set ?s. is_digit c \<and> \<not> is_uspace c \<and> c \<noteq> CHR ''-'' \<and> c \<noteq> CHR ''+''"
    using str_nat_digits [of n] is_digit_of_set by blast
  have h: "hd ?s \<in> set ?s" and l: "last ?s \<in> set ?s" using ne by auto
  have strip: "py_strip ?s = ?s" using py_strip_id ne all h l by blast
  have dig: "list_all is_digit ?s" using all by (simp add: list_all_iff)
  show ?thesis using ne all h dig
    by (simp add: py_int_def strip Let_def digits_value_str_nat)
qed

lemma py_split_none: "c \<notin> set b \<Longrightarrow> py_split c b = [b]"
  by (induction b) auto

lemma py_split_two: "c \<notin> set a \<Longrightarrow> c \<notin> set b \<Longrightarrow> py_split c (a @ c # b) = [a, b]"
  by (induction a) (auto simp: py_split_none)

section \<open>The rank ordinal mapping\<close>

lemma rank_label_chars: "set (rank_label t n) \<subseteq> set t \<union> set '' 0123456789''"
proof -
  have "set (rank_label t n) = set t \<union> {CHR '' ''} \<union> set (str_nat n)"
    by (simp add: rank_label_def)
  then show ?thesis using str_nat_digits [of n] by fastforce
qed

lemma py_in_rank_label: "py_in t (rank_label t n)"
  by (simp add: rank_label_def py_in_prefix)

lemma py_split_rank_label:
  "CHR '' '' \<notin> set t \<Longrightarrow> py_split CHR '' '' (rank_label t n) = [t, str_nat n]"
proof -
  assume "CHR '' '' \<notin> set t"
  moreover have "CHR '' '' \<notin> set (str_nat n)" using str_nat_digits [of n] by auto
  ultimately show ?thesis using py_split_two [of "CHR '' ''" t "str_nat n"]
    by (simp add: rank_label_def)
qed

lemma not_py_in_rank_label:
  "c \<in> set sub \<Longrightarrow> c \<notin> set t \<Longrightarrow> c \<notin> set '' 0123456789'' \<Longrightarrow> \<not> py_in sub (rank_label t n)"
proof -
  assume a: "c \<in> set sub" "c \<notin> set t" "c \<notin> set '' 0123456789''"
  then have "c \<notin> set (rank_label t n)" using rank_label_chars [of t n] by blast
  with a(1) show ?thesis by (rule not_py_in)
qed

lemma map_rank_loop_hit:
  "CHR '' '' \<notin> set t \<Longrightarrow>
   map_rank_loop (t # ts) (rank_label t n) = Some (Inr (int n + offset_list ! first_index title_list t))"
  by (simp add: py_in_rank_label py_split_rank_label py_int_str_nat Let_def)

lemma first_index_titles:
  "first_index title_list ''Maegashira'' = 0" "first_index title_list ''Juryo'' = 1"
  "first_index title_list ''Makushita'' = 2" "first_index title_list ''Sandanme'' = 3"
  "first_index title_list ''Jonidan'' = 4" "first_index title_list ''Jonokuchi'' = 5"
  by (simp_all add: title_list_def)

lemma map_rank_loop_skip:
  "\<not> py_in u r \<Longrightarrow> map_rank_loop (u # ts) r = map_rank_loop ts r"
  by simp

lemma map_rank_of_loop: "map_rank_loop title_list r = Some v \<Longrightarrow> map_rank r = v"
  by (simp add: map_rank_def Let_def)

lemma map_rank_Maegashira: "map_rank (rank_label ''Maegashira'' n) = Inr (int n + 4)"
proof -
  have hit: "map_rank_loop (''Maegashira'' # ts) (rank_label ''Maegashira'' n) = Some (Inr (int n + 4))" for ts
    using map_rank_loop_hit [of "''Maegashira''" ts n] by (simp add: first_index_titles offset_list_def)
  have "map_rank_loop title_list (rank_label ''Maegashira'' n) = Some (Inr (int n + 4))"
    unfolding title_list_def by (simp add: map_rank_loop_skip  hit del: map_rank_loop.simps)
  then show ?thesis by (rule map_rank_of_loop)
qed

lemma map_rank_Juryo: "map_rank (rank_label ''Juryo'' n) = Inr (int n + 21)"
proof -
  have s0: "\<not> py_in ''Maegashira'' (rank_label ''Juryo'' n)"
    by (rule not_py_in_rank_label [of "CHR ''M''"]) simp_all
  have hit: "map_rank_loop (''Juryo'' # ts) (rank_label ''Juryo'' n) = Some (Inr (int n + 21))" for ts
    using map_rank_loop_hit [of "''Juryo''" ts n] by (simp add: first_index_titles offset_list_def)
  have "map_rank_loop title_list (rank_label ''Juryo'' n) = Some (Inr (int n + 21))"
    unfolding title_list_def by (simp add: map_rank_loop_skip s0 hit del: map_rank_loop.simps)
  then show ?thesis by (rule map_rank_of_loop)
qed

lemma map_rank_Makushita: "map_rank (rank_label ''Makushita'' n) = Inr (int n + 35)"
proof -
  have s0: "\<not> py_in ''Maegashira'' (rank_label ''Makushita'' n)"
    by (rule not_py_in_rank_label [of "CHR ''g''"]) simp_all
  have s1: "\<not> py_in ''Juryo'' (rank_label ''Makushita'' n)"
    by (rule not_py_in_rank_label [of "CHR ''J''"]) simp_all
  have hit: "map_rank_loop (''Makushita'' # ts) (rank_label ''Makushita'' n) = Some (Inr (int n + 35))" for ts
    using map_rank_loop_hit [of "''Makushita''" ts n] by (simp add: first_index_titles offset_list_def)
  have "map_rank_loop title_list (rank_label ''Makushita'' n) = Some (Inr (int n + 35))"
    unfolding title_list_def by (simp add: map_rank_loop_skip s0 s1 hit del: map_rank_loop.simps)
  then show ?thesis by (rule map_rank_of_loop)
qed

lemma map_rank_Sandanme: "map_rank (rank_label ''Sandanme'' n) = Inr (int n + 95)"
proof -
  have s0: "\<not> py_in ''Maegashira'' (rank_label ''Sandanme'' n)"
    by (rule not_py_in_rank_label [of "CHR ''g''"]) simp_all
  have s1: "\<not> py_in ''Juryo'' (rank_label ''Sandanme'' n)"
    by (rule not_py_in_rank_label [of "CHR ''J''"]) simp_all
  have s2: "\<not> py_in ''Makushita'' (rank_label ''Sandanme'' n)"
    by (rule not_py_in_rank_label [of "CHR ''k''"]) simp_all
  have hit: "map_rank_loop (''Sandanme'' # ts) (rank_label ''Sandanme'' n) = Some (Inr (int n + 95))" for ts
    using map_rank_loop_hit [of "''Sandanme''" ts n] by (simp add: first_index_titles offset_list_def)
  have "map_rank_loop title_list (rank_label ''Sandanme'' n) = Some (Inr (int n + 95))"
    unfolding title_list_def by (simp add: map_rank_loop_skip s0 s1 s2 hit del: map_rank_loop.simps)
  then show ?thesis by (rule map_rank_of_loop)
qed

lemma map_rank_Jonidan: "map_rank (rank_label ''Jonidan'' n) = Inr (int n + 195)"
proof -
  have s0: "\<not> py_in ''Maegashira'' (rank_label ''Jonidan'' n)"
    by (rule not_py_in_rank_label [of "CHR ''M''"]) simp_all
  have s1: "\<not> py_in ''Juryo'' (rank_label ''Jonidan'' n)"
    by (rule not_py_in_rank_label [of "CHR ''u''"]) simp_all
  have s2: "\<not> py_in ''Makushita'' (rank_label ''Jonidan'' n)"
    by (rule not_py_in_rank_label [of "CHR ''M''"]) simp_all
  have s3: "\<not> py_in ''Sandanme'' (rank_label ''Jonidan'' n)"
    by (rule not_py_in_rank_label [of "CHR ''S''"]) simp_all
  have hit: "map_rank_loop (''Jonidan'' # ts) (rank_label ''Jonidan'' n) = Some (Inr (int n + 195))" for ts
    using map_rank_loop_hit [of "''Jonidan''" ts n] by (simp add: first_index_titles offset_list_def)
  have "map_rank_loop title_list (rank_label ''Jonidan'' n) = Some (Inr (int n + 195))"
    unfolding title_list_def by (simp add: map_rank_loop_skip s0 s1 s2 s3 hit del: map_rank_loop.simps)
  then show ?thesis by (rule map_rank_of_loop)
qed

lemma map_rank_Jonokuchi: "map_rank (rank_label ''Jonokuchi'' n) = Inr (int n + 320)"
proof -
  have s0: "\<not> py_in ''Maegashira'' (rank_label ''Jonokuchi'' n)"
    by (rule not_py_in_rank_label [of "CHR ''M''"]) simp_all
  have s1: "\<not> py_in ''Juryo'' (rank_label ''Jonokuchi'' n)"
    by (rule not_py_in_rank_label [of "CHR ''r''"]) simp_all
  have s2: "\<not> py_in ''Makushita'' (rank_label ''Jonokuchi'' n)"
    by (rule not_py_in_rank_label [of "CHR ''M''"]) simp_all
  have s3: "\<not> py_in ''Sandanme'' (rank_label ''Jonokuchi'' n)"
    by (rule not_py_in_rank_label [of "CHR ''S''"]) simp_all
  have s4: "\<not> py_in ''Jonidan'' (rank_label ''Jonokuchi'' n)"
    by (rule not_py_in_rank_label [of "CHR ''d''"]) simp_all
  have hit: "map_rank_loop (''Jonokuchi'' # ts) (rank_label ''Jonokuchi'' n) = Some (Inr (int n + 320))" for ts
    using map_rank_loop_hit [of "''Jonokuchi''" ts n] by (simp add: first_index_titles offset_list_def)
  have "map_rank_loop title_list (rank_label ''Jonokuchi'' n) = Some (Inr (int n + 320))"
    unfolding title_list_def by (simp add: map_rank_loop_skip s0 s1 s2 s3 s4 hit del: map_rank_loop.simps)
  then show ?thesis by (rule map_rank_of_loop)
qed

lemma map_rank_top_four:
  "map_rank ''Yokozuna'' = Inr 1" "map_rank ''Ozeki'' = Inr 2"
  "map_rank ''Sekiwake'' = Inr 3" "map_rank ''Komusubi'' = Inr 4"
  by (simp_all add: map_rank_def title_list_def)

lemma less_6_cases: "k < 6 \<Longrightarrow> k = 0 \<or> k = 1 \<or> k = 2 \<or> k = 3 \<or> k = 4 \<or> k = (5::nat)"
  by arith

lemma map_rank_numbered:
  assumes "k < 6"
  shows "map_rank (rank_label (title_list ! k) n) = Inr (int n + offset_list ! k)"
  using less_6_cases [OF assms]
  by (elim disjE)
    (simp_all add: title_list_def offset_list_def map_rank_Maegashira map_rank_Juryo
      map_rank_Makushita map_rank_Sandanme map_rank_Jonidan map_rank_Jonokuchi)

lemma offsets_positive: "k < 6 \<Longrightarrow> 4 \<le> offset_list ! k"
  by (drule less_6_cases) (auto simp: offset_list_def)

lemma offsets_step: "j < k \<Longrightarrow> k < 6 \<Longrightarrow> offset_list ! j + int (tier_size_list ! j) \<le> offset_list ! k"
proof -
  assume a: "j < k" "k < 6"
  then have "j < 6" by simp
  from less_6_cases [OF this] less_6_cases [OF a(2)] a(1) show ?thesis
    by (elim disjE) (simp_all add: offset_list_def tier_size_list_def)
qed

text \<open>
  C4: \<open>map_rank\<close> sends the four top named tiers to 1, 2, 3 and 4 and the label
  \<open><TierName> N\<close> of each of the six numbered tiers to \<open>N\<close> plus the tier's offset
  (4, 21, 35, 95, 195, 320). So the ordinal is strictly increasing in \<open>N\<close> within a
  tier, rank 1 of a lower tier lies above every rank of a higher numbered tier within that
  tier's nominal range, and above the four named tiers.
\<close>

theorem map_rank_total_order:
  "map_rank ''Yokozuna'' = Inr 1 \<and> map_rank ''Ozeki'' = Inr 2
   \<and> map_rank ''Sekiwake'' = Inr 3 \<and> map_rank ''Komusubi'' = Inr 4
   \<and> (\<forall>k n. k < 6 \<longrightarrow> map_rank (rank_label (title_list ! k) n) = Inr (int n + offset_list ! k))
   \<and> (\<forall>k n m. k < 6 \<and> n < m \<longrightarrow>
         rank_lt (map_rank (rank_label (title_list ! k) n)) (map_rank (rank_label (title_list ! k) m)))
   \<and> (\<forall>j k n. j < k \<and> k < 6 \<and> 1 \<le> n \<and> n \<le> tier_size_list ! j \<longrightarrow>
         rank_lt (map_rank (rank_label (title_list ! j) n)) (map_rank (rank_label (title_list ! k) 1)))
   \<and> (\<forall>t k. t \<in> set [''Yokozuna'', ''Ozeki'', ''Sekiwake'', ''Komusubi''] \<and> k < 6 \<longrightarrow>
         rank_lt (map_rank t) (map_rank (rank_label (title_list ! k) 1)))"
proof (intro conjI allI impI)
  fix k n :: nat assume "k < 6"
  then show "map_rank (rank_label (title_list ! k) n) = Inr (int n + offset_list ! k)"
    by (rule map_rank_numbered)
next
  fix k n m :: nat assume "k < 6 \<and> n < m"
  then show "rank_lt (map_rank (rank_label (title_list ! k) n)) (map_rank (rank_label (title_list ! k) m))"
    by (simp add: map_rank_numbered rank_lt_def)
next
  fix j k n :: nat assume a: "j < k \<and> k < 6 \<and> 1 \<le> n \<and> n \<le> tier_size_list ! j"
  then have "j < 6" by simp
  moreover have "int n + offset_list ! j < 1 + offset_list ! k"
    using offsets_step [of j k] a by linarith
  ultimately show "rank_lt (map_rank (rank_label (title_list ! j) n)) (map_rank (rank_label (title_list ! k) 1))"
    using a by (simp add: map_rank_numbered rank_lt_def)
next
  fix t and k :: nat assume a: "t \<in> set [''Yokozuna'', ''Ozeki'', ''Sekiwake'', ''Komusubi''] \<and> k < 6"
  then have "4 \<le> offset_list ! k" by (simp add: offsets_positive)
  moreover have "map_rank t = Inr 1 \<or> map_rank t = Inr 2 \<or> map_rank t = Inr 3 \<or> map_rank t = Inr 4"
    using a map_rank_top_four by auto
  ultimately show "rank_lt (map_rank t) (map_rank (rank_label (title_list ! k) 1))"
    using a by (auto simp: map_rank_numbered rank_lt_def)
qed (simp_all add: map_rank_top_four)

text \<open>The instances of the example: Maegashira 1, Juryo 1, Makushita 1.\<close>

theorem map_rank_total_order_witness:
  "rank_lt (map_rank ''Maegashira 1'') (map_rank ''Juryo 1'')
   \<and> rank_lt (map_rank ''Juryo 1'') (map_rank ''Makushita 1'')
   \<and> map_rank ''Maegashira 17'' = Inr 21 \<and> map_rank ''Juryo 1'' = Inr 22
   \<and> rank_lt (map_rank ''Komusubi'') (map_rank ''Maegashira 1'')"
proof -
  have l: "rank_label ''Maegashira'' 1 = ''Maegashira 1''" "rank_label ''Juryo'' 1 = ''Juryo 1''"
    "rank_label ''Makushita'' 1 = ''Makushita 1''" "rank_label ''Maegashira'' 17 = ''Maegashira 17''"
    by (simp_all add: rank_label_def str_nat.simps digit_char_def)
  have t: "title_list ! 0 = ''Maegashira''" "title_list ! 1 = ''Juryo''" "title_list ! 2 = ''Makushita''"
    "offset_list ! 0 = 4" "offset_list ! 1 = 21" "tier_size_list ! 0 = 17" "tier_size_list ! 1 = 14"
    by (simp_all add: title_list_def offset_list_def tier_size_list_def)
  have m: "\<forall>j k n. j < k \<and> k < 6 \<and> 1 \<le> n \<and> n \<le> tier_size_list ! j \<longrightarrow>
         rank_lt (map_rank (rank_label (title_list ! j) n)) (map_rank (rank_label (title_list ! k) 1))"
    and v: "\<forall>k n. k < 6 \<longrightarrow> map_rank (rank_label (title_list ! k) n) = Inr (int n + offset_list ! k)"
    and f: "\<forall>t k. t \<in> set [''Yokozuna'', ''Ozeki'', ''Sekiwake'', ''Komusubi''] \<and> k < 6 \<longrightarrow>
         rank_lt (map_rank t) (map_rank (rank_label (title_list ! k) 1))"
    using map_rank_total_order by blast+
  have "rank_lt (map_rank ''Maegashira 1'') (map_rank ''Juryo 1'')"
    using m [rule_format, of 0 1 1] unfolding l t by simp
  moreover have "rank_lt (map_rank ''Juryo 1'') (map_rank ''Makushita 1'')"
    using m [rule_format, of 1 2 1] unfolding l t by simp
  moreover have "map_rank ''Maegashira 17'' = Inr 21"
    using v [rule_format, of 0 17] unfolding l t by simp
  moreover have "map_rank ''Juryo 1'' = Inr 22"
    using v [rule_format, of 1 1] unfolding l t by simp
  moreover have "rank_lt (map_rank ''Komusubi'') (map_rank ''Maegashira 1'')"
    using f [rule_format, of "''Komusubi''" 0] unfolding l t by simp
  ultimately show ?thesis by blast
qed

section \<open>The discount weight\<close>

lemmas date_eval = years_since_def timedelta_days_def to_microseconds_def toordinal_def mk_date_def
  days_before_year_def days_before_month_def days_in_month_def is_leap_def

lemma first_index_props:
  "x \<in> set xs \<Longrightarrow>
     first_index xs x < length xs \<and> xs ! first_index xs x = x \<and> (\<forall>j < first_index xs x. xs ! j \<noteq> x)"
proof (induction xs)
  case Nil
  then show ?case by simp
next
  case (Cons y ys)
  show ?case
  proof (cases "y = x")
    case True
    then show ?thesis by simp
  next
    case False
    with Cons.prems have "x \<in> set ys" by simp
    with Cons.IH False show ?thesis by (auto simp: nth_Cons split: nat.splits)
  qed
qed

lemma argmin_props:
  assumes "xs \<noteq> []"
  shows "argmin xs < length xs"
    and "\<forall>j < length xs. xs ! argmin xs \<le> xs ! j"
    and "\<forall>j < argmin xs. xs ! argmin xs < xs ! j"
proof -
  have m: "Min (set xs) \<in> set xs" using assms by (simp add: Min_in)
  note p = first_index_props [OF m, folded argmin_def]
  show "argmin xs < length xs" using p by simp
  show "\<forall>j < length xs. xs ! argmin xs \<le> xs ! j" using p by simp
  show "\<forall>j < argmin xs. xs ! argmin xs < xs ! j"
  proof (intro allI impI)
    fix j assume j: "j < argmin xs"
    then have "j < length xs" using p by simp
    then have "Min (set xs) \<le> xs ! j" by simp
    moreover have "xs ! j \<noteq> Min (set xs)" using p j by simp
    ultimately show "xs ! argmin xs < xs ! j" using p by simp
  qed
qed

lemma length_time_grid: "length time_grid = 100"
  by (simp add: time_grid_def)

lemma nth_time_grid: "i < 100 \<Longrightarrow> time_grid ! i = 10 * real i / 99"
  by (simp add: time_grid_def)



lemma nearest_props:
  "nearest y < 100"
  "j < 100 \<Longrightarrow> \<bar>time_grid ! nearest y - y\<bar> \<le> \<bar>time_grid ! j - y\<bar>"
  "j < nearest y \<Longrightarrow> \<bar>time_grid ! nearest y - y\<bar> < \<bar>time_grid ! j - y\<bar>"
proof -
  let ?xs = "map (\<lambda>t. \<bar>t - y\<bar>) time_grid"
  have ne: "?xs \<noteq> []" using length_time_grid by auto
  note p = argmin_props [OF ne, folded nearest_def]
  show n: "nearest y < 100" using p(1) by (simp add: length_time_grid)
  show "\<bar>time_grid ! nearest y - y\<bar> \<le> \<bar>time_grid ! j - y\<bar>" if "j < 100"
    using p(2) that n by (simp add: length_time_grid)
  show "\<bar>time_grid ! nearest y - y\<bar> < \<bar>time_grid ! j - y\<bar>" if "j < nearest y"
    using p(3) that n by (simp add: length_time_grid)
qed





lemma np_power_pos:
  assumes "0 < d" "d < 1" "t \<le> 10" "1 / 2 ^ 1022 \<le> d ^ 10"
  shows "0 < np_power d t"
proof -
  have "(1::real) / 2 ^ 1075 < 1 / 2 ^ 1022"
    by (simp add: frac_less2 power_strict_increasing)
  also have "\<dots> \<le> d powr 10" using assms by simp
  also have "\<dots> \<le> d powr t" using assms by (intro powr_mono') simp_all
  finally show ?thesis using assms by (simp add: np_power_def)
qed

lemma time_grid_le_10: "i < 100 \<Longrightarrow> time_grid ! i \<le> 10"
  by (simp add: nth_time_grid)

lemma discount_weight_eq:
  "discount_weight c p d =
     (if years_since c p \<le> 1 then d
      else min (np_power d (time_grid ! nearest (years_since c p))) d)"
  using nearest_props(1) [of "years_since c p"]
  by (simp add: discount_weight_def discount_weights_def nearest_def Let_def length_time_grid)


lemma discount_weight_pos:
  assumes "0 < d" "d < 1" "1 / 2 ^ 1022 \<le> d ^ 10"
  shows "0 < discount_weight c p d"
proof -
  have "time_grid ! nearest (years_since c p) \<le> 10"
    using nearest_props(1) by (rule time_grid_le_10)
  with assms have "0 < np_power d (time_grid ! nearest (years_since c p))"
    by (intro np_power_pos)
  then show ?thesis using assms by (simp add: discount_weight_eq)
qed





lemma base_08_normal: "(1::real) / 2 ^ 1022 \<le> (4 / 5) ^ 10"
proof -
  have "(1::real) / 2 ^ 1022 \<le> 1 / 2 ^ 4"
    by (intro frac_le power_increasing) simp_all
  also have "\<dots> \<le> (4 / 5) ^ 10" by (simp add: power_divide)
  finally show ?thesis .
qed


section \<open>The head-to-head win rates\<close>

lemma weight_08_pos: "0 < discount_weight c p 0.8"
  using discount_weight_pos [of "4 / 5" c p] base_08_normal by simp

lemma h2h_step_inv:
  assumes "h2h_inv acc" "clean_outcome row" "h_ID1 row = ID1 \<or> h_ID2 row = ID1"
  shows "h2h_inv (h2h_step current_date ID1 acc row)"
    and "sum_list (weight_list (h2h_step current_date ID1 acc row)) > sum_list (weight_list acc)"
  using assms weight_08_pos [of current_date "h_date row"]
  by (auto simp: h2h_inv_def h2h_step_def clean_outcome_def Let_def split: if_splits)

lemma h2h_foldl_inv:
  assumes "\<forall>row \<in> set rows. clean_outcome row \<and> (h_ID1 row = ID1 \<or> h_ID2 row = ID1)"
    and "h2h_inv acc"
  shows "h2h_inv (foldl (h2h_step current_date ID1) acc rows)
     \<and> sum_list (weight_list acc) \<le> sum_list (weight_list (foldl (h2h_step current_date ID1) acc rows))
     \<and> (rows \<noteq> [] \<longrightarrow>
          sum_list (weight_list acc) < sum_list (weight_list (foldl (h2h_step current_date ID1) acc rows)))"
  using assms
proof (induction rows arbitrary: acc)
  case Nil
  then show ?case by simp
next
  case (Cons row rows)
  have r: "clean_outcome row" "h_ID1 row = ID1 \<or> h_ID2 row = ID1" using Cons.prems(1) by simp_all
  note s = h2h_step_inv [OF Cons.prems(2) r, of current_date]
  have "\<forall>row \<in> set rows. clean_outcome row \<and> (h_ID1 row = ID1 \<or> h_ID2 row = ID1)"
    using Cons.prems(1) by simp
  from Cons.IH [OF this s(1)] s(2) show ?case by simp
qed

text \<open>
  C1: for an empty history both win rates are 0.5. For a non-empty history in which every
  match has a clean win/loss outcome pair and the queried competitor as one of its two
  identifiers, \<open>calculate_h2h_wp\<close> returns two win rates that sum to 1 (and neither is
  negative).
\<close>

theorem h2h_win_rates_sum_to_one:
  "calculate_h2h_wp current_date [] ID1 = Inr (0.5, 0.5)
   \<and> (rel_df \<noteq> [] \<and> (\<forall>row \<in> set rel_df. clean_outcome row \<and> (h_ID1 row = ID1 \<or> h_ID2 row = ID1)) \<longrightarrow>
        (\<exists>h2h_wp1 h2h_wp2. calculate_h2h_wp current_date rel_df ID1 = Inr (h2h_wp1, h2h_wp2)
           \<and> h2h_wp1 + h2h_wp2 = 1 \<and> 0 \<le> h2h_wp1 \<and> 0 \<le> h2h_wp2))"
proof (intro conjI impI)
  show "calculate_h2h_wp current_date [] ID1 = Inr (0.5, 0.5)"
    by (simp add: calculate_h2h_wp_def)
next
  assume a: "rel_df \<noteq> [] \<and> (\<forall>row \<in> set rel_df. clean_outcome row \<and> (h_ID1 row = ID1 \<or> h_ID2 row = ID1))"
  let ?init = "\<lparr>weight_list = [], numerator1 = [], numerator2 = []\<rparr>"
  let ?final = "foldl (h2h_step current_date ID1) ?init rel_df"
  have "h2h_inv ?init" by (simp add: h2h_inv_def)
  moreover have "\<forall>row \<in> set rel_df. clean_outcome row \<and> (h_ID1 row = ID1 \<or> h_ID2 row = ID1)"
    using a by simp
  ultimately have f: "h2h_inv ?final \<and> sum_list (weight_list ?init) \<le> sum_list (weight_list ?final)
     \<and> (rel_df \<noteq> [] \<longrightarrow> sum_list (weight_list ?init) < sum_list (weight_list ?final))"
    using h2h_foldl_inv [of rel_df ID1 ?init current_date] by blast
  have inv: "h2h_inv ?final" using f by simp
  have pos: "0 < sum_list (weight_list ?final)" using f a by simp
  have eq: "calculate_h2h_wp current_date rel_df ID1 =
      Inr (sum_list (numerator1 ?final) / sum_list (weight_list ?final),
           sum_list (numerator2 ?final) / sum_list (weight_list ?final))"
    using a pos by (simp add: calculate_h2h_wp_def Let_def)
  have "sum_list (numerator1 ?final) / sum_list (weight_list ?final)
      + sum_list (numerator2 ?final) / sum_list (weight_list ?final) = 1"
    using inv pos by (simp add: h2h_inv_def add_divide_distrib [symmetric])
  moreover have "0 \<le> sum_list (numerator1 ?final) / sum_list (weight_list ?final)"
    "0 \<le> sum_list (numerator2 ?final) / sum_list (weight_list ?final)"
    using inv pos by (simp_all add: h2h_inv_def)
  ultimately show "\<exists>h2h_wp1 h2h_wp2. calculate_h2h_wp current_date rel_df ID1 = Inr (h2h_wp1, h2h_wp2)
           \<and> h2h_wp1 + h2h_wp2 = 1 \<and> 0 \<le> h2h_wp1 \<and> 0 \<le> h2h_wp2"
    using eq by blast
qed

text \<open>The history of two matches, queried for competitor 10 in March 2017.\<close>

theorem h2h_win_rates_sum_to_one_witness:
  "[row_a, row_b] \<noteq> [] \<and> clean_outcome row_a \<and> clean_outcome row_b
   \<and> h_ID1 row_a = 10 \<and> h_ID2 row_b = 10
   \<and> (\<exists>h2h_wp1 h2h_wp2. calculate_h2h_wp (mk_date 2017 3 1) [row_a, row_b] 10 = Inr (h2h_wp1, h2h_wp2)
           \<and> h2h_wp1 + h2h_wp2 = 1)
   \<and> calculate_h2h_wp (mk_date 2017 3 1) [] 10 = Inr (0.5, 0.5)"
proof -
  have h: "clean_outcome row_a" "clean_outcome row_b" "h_ID1 row_a = 10" "h_ID2 row_b = 10"
    by (simp_all add: clean_outcome_def row_a_def row_b_def)
  then show ?thesis
    using h2h_win_rates_sum_to_one [of "mk_date 2017 3 1" 10 "[row_a, row_b]"] by auto
qed

section \<open>The entity resolver\<close>

text \<open>
  C9: when exactly one row of the reference table has a name containing the given name
  and an affiliation containing the given affiliation, \<open>match_ID\<close> returns that row's
  identifier, having evaluated the first filter only: neither the date conditions nor the
  live fetch, whatever the dates, the URL and the fetch would give.
\<close>

theorem match_ID_unique_tier1:
  assumes "filter (tier1_match shikona sumo_stable) filtered_df = [r]"
  shows "match_ID basic_scrape shikona sumo_stable bday debut filtered_df rikishi_url
           = ([Tier1_filter], Inr (r_rikishi_ID r))"
  using assms by (simp add: match_ID_def)

theorem match_ID_unique_tier1_witness:
  "filter (tier1_match ''Hakuho'' ''Miyagino'') table3 = [table3 ! 0]
   \<and> match_ID no_network ''Hakuho'' ''Miyagino'' (mk_date 1985 3 11) (mk_date 2001 3 1) table3 ''Rikishi.aspx?r=1123''
       = ([Tier1_filter], Inr 1123)"
proof -
  have f: "filter (tier1_match ''Hakuho'' ''Miyagino'') table3 = [table3 ! 0]"
    by (simp add: table3_def tier1_match_def)
  have "r_rikishi_ID (table3 ! 0) = 1123" by (simp add: table3_def)
  with f match_ID_unique_tier1 [OF f, of no_network "mk_date 1985 3 11" "mk_date 2001 3 1" "''Rikishi.aspx?r=1123''"]
  show ?thesis by simp
qed

text \<open>
  C10: when the first filter matches no row, \<open>match_ID\<close> raises its exception, whose
  message names the competitor, having evaluated the first filter only. The date
  conditions are evaluated exactly when the first filter matches more than one row, and
  the live fetch exactly when the second filter too matches more than one row.
\<close>

theorem match_ID_no_match_and_escalation:
  "(filter (tier1_match shikona sumo_stable) filtered_df = [] \<longrightarrow>
      match_ID basic_scrape shikona sumo_stable bday debut filtered_df rikishi_url
        = ([Tier1_filter], Inl (Exception (''Could not find sumo ID for: '' @ shikona))))
   \<and> (Tier2_filter \<in> set (fst (match_ID basic_scrape shikona sumo_stable bday debut filtered_df rikishi_url))
        \<longleftrightarrow> 1 < length (filter (tier1_match shikona sumo_stable) filtered_df))
   \<and> ((\<exists>u. Live_fetch u \<in> set (fst (match_ID basic_scrape shikona sumo_stable bday debut filtered_df rikishi_url)))
        \<longleftrightarrow> 1 < length (filter (tier1_match shikona sumo_stable) filtered_df)
            \<and> 1 < length (filter (tier2_match shikona sumo_stable bday debut) filtered_df))"
  by (auto simp: match_ID_def Let_def split: sum.splits)

theorem match_ID_no_match_and_escalation_witness:
  "filter (tier1_match ''Kotoshogiku'' ''Sadogatake'') table3 = []
   \<and> match_ID no_network ''Kotoshogiku'' ''Sadogatake'' (mk_date 1984 1 30) (mk_date 2002 1 1) table3 ''Rikishi.aspx?r=1'' 
        = ([Tier1_filter], Inl (Exception ''Could not find sumo ID for: Kotoshogiku''))
   \<and> length (filter (tier1_match ''Wakanohana'' ''Futagoyama'') table3) = 2
   \<and> Tier2_filter \<in> set (fst (match_ID no_network ''Wakanohana'' ''Futagoyama'' (mk_date 1971 1 20) (mk_date 1988 3 1) table3 ''Rikishi.aspx?r=7''))"
proof -
  have e: "filter (tier1_match ''Kotoshogiku'' ''Sadogatake'') table3 = []"
    by (simp add: table3_def tier1_match_def)
  have t: "length (filter (tier1_match ''Wakanohana'' ''Futagoyama'') table3) = 2"
    by (simp add: table3_def tier1_match_def)
  show ?thesis
    using e t
      match_ID_no_match_and_escalation [of "''Kotoshogiku''" "''Sadogatake''" table3 no_network
        "mk_date 1984 1 30" "mk_date 2002 1 1" "''Rikishi.aspx?r=1''"]
      match_ID_no_match_and_escalation [of "''Wakanohana''" "''Futagoyama''" table3 no_network
        "mk_date 1971 1 20" "mk_date 1988 3 1" "''Rikishi.aspx?r=7''"]
    by simp
qed

text \<open>The two rows of the same stable are told apart by the dates.\<close>

lemma match_ID_tier2_example:
  "match_ID no_network ''Wakanohana'' ''Futagoyama'' (mk_date 1971 1 20) (mk_date 1988 3 1) table3 ''Rikishi.aspx?r=7'' = ([Tier1_filter, Tier2_filter], Inr 7)"
  by (simp add: match_ID_def table3_def tier1_match_def tier2_match_def timedelta_total_seconds_def date_eval)

section \<open>Swap invariance of the feature row\<close>

text \<open>
  C3, as stated, fails: for the match won by the first competitor (outcomes shiro, kuro)
  the row built with the swap (order 2), after negating the differences and exchanging the
  identifiers, carries label 0, whereas the row built without the swap (order 1) carries
  label 1.
\<close>

theorem swap_invariance_counterexample:
  "map_option negate_and_exchange
      (feature_dict 2 3 (-12) (3/2) 2 (-4) (1/5) 10 20 ''shiro'' ''kuro'')
   \<noteq> feature_dict 1 3 (-12) (3/2) 2 (-4) (1/5) 10 20 ''shiro'' ''kuro''"
  by (simp add: feature_dict_def negate_and_exchange_def)

text \<open>
  C3, amended: for every match, the row built with the swap, after negating all the
  difference fields, exchanging the two identifiers and complementing the label, equals
  the row built without the swap (both are absent when the outcome pair is not a clean
  win/loss pair).
\<close>

theorem swap_invariance_with_label_flip:
  "map_option negate_exchange_flip
      (feature_dict 2 height_diff weight_diff age_diff active_diff rank_diff h2h_diff
         ID1 ID2 outcome1 outcome2)
   = feature_dict 1 height_diff weight_diff age_diff active_diff rank_diff h2h_diff
         ID1 ID2 outcome1 outcome2"
  by (simp add: feature_dict_def negate_exchange_flip_def negate_and_exchange_def)

section \<open>The date-triplet parser\<close>

lemmas char_class_eval = is_digit_def is_space_def is_word_def is_digit_or_dot_def is_uspace_def
  is_A_to_z_def is_letter_def at_end_def newline_def digit_val_def digits_value_def

lemmas strptime_eval = parse_Y_def parse_upto_def parse_B_def parse_spaces_def make_date_def
  month_names_def ci_prefix_def ci_eq_def days_in_month_def is_leap_def

text \<open>The inputs of the docstring of \<open>extract_years\<close>, and three that do not parse.\<close>

lemma strptime_examples:
  "strptime ''1757'' Fmt_Y = Some (mk_date 1757 1 1)"
  "strptime ''January 1757'' Fmt_B_Y = Some (mk_date 1757 1 1)"
  "strptime ''January 27, 1757'' Fmt_B_d_Y = Some (mk_date 1757 1 27)"
  "strptime ''2001.03'' Fmt_Y_m = Some (mk_date 2001 3 1)"
  "strptime ''2001.13'' Fmt_Y_m = None"
  "strptime ''February 30, 1980'' Fmt_B_d_Y = None"
  "strptime ''January 27, 1757'' Fmt_B_Y = None"
  by (simp_all add: char_class_eval strptime_eval)

lemma reg_exp_examples:
  "reg_exp ''2001.03'' = Some (Some ''2001.03'', None, None)"
  "reg_exp ''2001.03 (Makushita)'' = Some (Some ''2001.03'', Some ''Makushita'', None)"
  "reg_exp ''unknown'' = Some (None, None, Some ''unknown'')"
  "reg_exp '''' = None"
  by (simp_all add: reg_exp_def char_class_eval)

text \<open>
  Whenever group 3 of the pattern marks the retirement as unknown (the token \<open>unknown\<close>,
  with or without a final newline), the age and the active years are absent.
\<close>

lemma annotated_unknown_suppresses:
  assumes "annotated_unknown intai"
  shows "yr_age (extract_years now birth_date hatsu_dohyo intai) = None
     \<and> yr_active_years (extract_years now birth_date hatsu_dohyo intai) = None"
  using assms
  by (auto simp: annotated_unknown_def extract_years_def Let_def split: option.splits)

text \<open>
  C5: when the retirement field is the token \<open>unknown\<close>, the age and the active years
  are absent, whatever the birth date and the debut. When the retirement field gives no
  date and is not annotated unknown, the age and the active years are computed against
  the current date, from the birth date and from the debut (each when it was parsed).
\<close>

theorem unknown_retirement_suppresses_age:
  "yr_age (extract_years now birth_date hatsu_dohyo ''unknown'') = None
   \<and> yr_active_years (extract_years now birth_date hatsu_dohyo ''unknown'') = None
   \<and> (yr_retirement (extract_years now birth_date hatsu_dohyo intai) = None \<and> \<not> annotated_unknown intai \<longrightarrow>
        yr_age (extract_years now birth_date hatsu_dohyo intai)
          = map_option (\<lambda>b. real_of_int (timedelta_days now b) / 365.25)
              (yr_bday (extract_years now birth_date hatsu_dohyo intai))
        \<and> yr_active_years (extract_years now birth_date hatsu_dohyo intai)
          = map_option (\<lambda>d. real_of_int (timedelta_days now d) / 365.25)
              (yr_debut (extract_years now birth_date hatsu_dohyo intai)))"
proof (intro conjI impI)
  have u: "annotated_unknown ''unknown''"
    by (simp add: annotated_unknown_def reg_exp_examples)
  show "yr_age (extract_years now birth_date hatsu_dohyo ''unknown'') = None"
    using u by (rule annotated_unknown_suppresses [THEN conjunct1])
  show "yr_active_years (extract_years now birth_date hatsu_dohyo ''unknown'') = None"
    using u by (rule annotated_unknown_suppresses [THEN conjunct2])
next
  assume "yr_retirement (extract_years now birth_date hatsu_dohyo intai) = None \<and> \<not> annotated_unknown intai"
  then show "yr_age (extract_years now birth_date hatsu_dohyo intai)
          = map_option (\<lambda>b. real_of_int (timedelta_days now b) / 365.25)
              (yr_bday (extract_years now birth_date hatsu_dohyo intai))"
    by (auto simp: annotated_unknown_def extract_years_def Let_def split: option.splits)
next
  assume "yr_retirement (extract_years now birth_date hatsu_dohyo intai) = None \<and> \<not> annotated_unknown intai"
  then show "yr_active_years (extract_years now birth_date hatsu_dohyo intai)
          = map_option (\<lambda>d. real_of_int (timedelta_days now d) / 365.25)
              (yr_debut (extract_years now birth_date hatsu_dohyo intai))"
    by (auto simp: annotated_unknown_def extract_years_def Let_def split: option.splits)
qed

lemmas extract_years_eval = extract_years_def reg_exp_def bday_step_def annotated_unknown_def

text \<open>
  A profile with birth date and debut parsed and retirement \<open>unknown\<close>, and an active
  competitor (empty retirement field), both read on 1 March 2017.
\<close>

theorem unknown_retirement_suppresses_age_witness:
  "yr_bday (extract_years (mk_date 2017 3 1) ''January 27, 1757'' ''1780.03'' ''unknown'')
        = Some (mk_date 1757 1 27)
   \<and> yr_debut (extract_years (mk_date 2017 3 1) ''January 27, 1757'' ''1780.03'' ''unknown'')
        = Some (mk_date 1780 3 1)
   \<and> yr_age (extract_years (mk_date 2017 3 1) ''January 27, 1757'' ''1780.03'' ''unknown'') = None
   \<and> yr_active_years (extract_years (mk_date 2017 3 1) ''January 27, 1757'' ''1780.03'' ''unknown'') = None
   \<and> yr_retirement (extract_years (mk_date 2017 3 1) ''March 11, 1985'' ''2001.03'' '''') = None
   \<and> \<not> annotated_unknown ''''
   \<and> yr_age (extract_years (mk_date 2017 3 1) ''March 11, 1985'' ''2001.03'' '''')
        = Some (real_of_int (timedelta_days (mk_date 2017 3 1) (mk_date 1985 3 11)) / 365.25)
   \<and> yr_active_years (extract_years (mk_date 2017 3 1) ''March 11, 1985'' ''2001.03'' '''')
        = Some (real_of_int (timedelta_days (mk_date 2017 3 1) (mk_date 2001 3 1)) / 365.25)"
proof -
  let ?now = "mk_date 2017 3 1"
  have b1: "yr_bday (extract_years ?now ''January 27, 1757'' ''1780.03'' ''unknown'') = Some (mk_date 1757 1 27)"
    by (simp add: extract_years_eval char_class_eval strptime_eval mk_date_def)
  have d1: "yr_debut (extract_years ?now ''January 27, 1757'' ''1780.03'' ''unknown'') = Some (mk_date 1780 3 1)"
    by (simp add: extract_years_eval char_class_eval strptime_eval mk_date_def)
  have b2: "yr_bday (extract_years ?now ''March 11, 1985'' ''2001.03'' '''') = Some (mk_date 1985 3 11)"
    by (simp add: extract_years_eval char_class_eval strptime_eval mk_date_def)
  have d2: "yr_debut (extract_years ?now ''March 11, 1985'' ''2001.03'' '''') = Some (mk_date 2001 3 1)"
    by (simp add: extract_years_eval char_class_eval strptime_eval mk_date_def)
  have r2: "yr_retirement (extract_years ?now ''March 11, 1985'' ''2001.03'' '''') = None"
    by (simp add: extract_years_eval char_class_eval strptime_eval mk_date_def)
  have u2: "\<not> annotated_unknown ''''"
    by (simp add: annotated_unknown_def reg_exp_def char_class_eval)
  show ?thesis
    using unknown_retirement_suppresses_age [of ?now "''January 27, 1757''" "''1780.03''" "''''"]
      unknown_retirement_suppresses_age [of ?now "''March 11, 1985''" "''2001.03''" "''''"]
      b1 d1 b2 d2 r2 u2
    by simp
qed

text \<open>The birth date that \<open>extract_years\<close> returns is never earlier than the year 1700.\<close>

lemma extract_years_bday_year:
  assumes "yr_bday (extract_years now birth_date hatsu_dohyo intai) = Some b"
  shows "1700 \<le> dt_year b"
proof -
  let ?c = "split_head '' ('' birth_date"
  have "yr_bday (extract_years now birth_date hatsu_dohyo intai)
      = foldl (bday_step ?c) None [Fmt_B_d_Y, Fmt_B_Y, Fmt_Y]"
    by (simp add: extract_years_def Let_def split: option.splits)
  then have "bday_step ?c (bday_step ?c (bday_step ?c None Fmt_B_d_Y) Fmt_B_Y) Fmt_Y = Some b"
    using assms by simp
  then show ?thesis
    by (auto simp: bday_step_def split: option.splits if_splits)
qed

text \<open>
  C6: the debut and the retirement are returned whatever their year. With the debut
  \<open>1650.03\<close> and the retirement \<open>1652.01\<close>, \<open>extract_years\<close> returns the dates
  1 March 1650 and 1 January 1652; only the birth date is tested against the year 1700.
\<close>

theorem extract_years_keeps_early_debut:
  "yr_debut (extract_years (mk_date 2017 3 1) ''1640'' ''1650.03'' ''1652.01'') = Some (mk_date 1650 3 1)
   \<and> yr_retirement (extract_years (mk_date 2017 3 1) ''1640'' ''1650.03'' ''1652.01'') = Some (mk_date 1652 1 1)
   \<and> yr_bday (extract_years (mk_date 2017 3 1) ''1640'' ''1650.03'' ''1652.01'') = None
   \<and> dt_year (mk_date 1650 3 1) < 1700 \<and> dt_year (mk_date 1652 1 1) < 1700"
proof -
  have "yr_debut (extract_years (mk_date 2017 3 1) ''1640'' ''1650.03'' ''1652.01'') = Some (mk_date 1650 3 1)"
    by (simp add: extract_years_eval char_class_eval strptime_eval mk_date_def)
  moreover have "yr_retirement (extract_years (mk_date 2017 3 1) ''1640'' ''1650.03'' ''1652.01'') = Some (mk_date 1652 1 1)"
    by (simp add: extract_years_eval char_class_eval strptime_eval mk_date_def)
  moreover have "yr_bday (extract_years (mk_date 2017 3 1) ''1640'' ''1650.03'' ''1652.01'') = None"
    by (simp add: extract_years_eval char_class_eval strptime_eval mk_date_def)
  ultimately show ?thesis by (simp add: mk_date_def)
qed

section \<open>The rank at bout time\<close>

lemmas rank_eval = extract_h2h_rank_def rank_string_def rank_regex_def py_strip_def py_index_def
  abbrev_list_def full_list_def

text \<open>
  C7, as stated, fails: the token \<open>Mz12w\<close> has the shape letters, digits, letters, its code
  \<open>Mz\<close> is none of the ten abbreviations, and \<open>extract_h2h_rank\<close> raises ValueError
  instead of returning the absent rank.
\<close>

theorem extract_h2h_rank_absent_counterexample:
  "rank_regex (rank_string ''Mz12w Takanoyama'') = Some (''Mz'', ''12'')
   \<and> ''Mz'' \<notin> set abbrev_list
   \<and> extract_h2h_rank ''Mz12w Takanoyama'' \<noteq> Inr None"
  by (simp add: rank_eval char_class_eval)

text \<open>
  C7, amended: for every raw string whose leading token has the shape letters, digits,
  letters and whose tier code is none of the ten abbreviations, \<open>extract_h2h_rank\<close>
  raises ValueError (the lookup of the code in the list of abbreviations fails).
\<close>

theorem extract_h2h_rank_unknown_code:
  assumes "rank_regex (rank_string rank_raw) = Some (rank_name, rank_num)"
    and "rank_name \<notin> set abbrev_list"
  shows "extract_h2h_rank rank_raw = Inl ValueError"
  using assms by (simp add: extract_h2h_rank_def py_index_def)

theorem extract_h2h_rank_unknown_code_witness:
  "rank_regex (rank_string ''Bg1e Hakuho'') = Some (''Bg'', ''1'')
   \<and> ''Bg'' \<notin> set abbrev_list
   \<and> extract_h2h_rank ''Bg1e Hakuho'' = Inl ValueError"
proof -
  have r: "rank_regex (rank_string ''Bg1e Hakuho'') = Some (''Bg'', ''1'')"
    by (simp add: rank_eval char_class_eval)
  have a: "''Bg'' \<notin> set abbrev_list" by (simp add: abbrev_list_def)
  from r a extract_h2h_rank_unknown_code [OF r a] show ?thesis by simp
qed

text \<open>The documented cases: a known code gives the rank, a token without digits gives none.\<close>

lemma extract_h2h_rank_examples:
  "extract_h2h_rank ''Ms4e Hakuho'' = Inr (Some ''Makushita 4'')"
  "extract_h2h_rank ''Y1eHD'' = Inr (Some ''Yokozuna 1'')"
  "extract_h2h_rank ''Mz'' = Inr None"
  by (simp_all add: rank_eval char_class_eval)

section \<open>The body specification\<close>

lemmas body_eval = extract_body_specs_def body_regex_def float_except_TypeError_def py_float_def

text \<open>
  C8: the input \<open>1.2.3 cm 100 kg\<close> matches the pattern, its first group \<open>1.2.3\<close> is not
  a float, and the ValueError of \<open>float\<close> escapes \<open>extract_body_specs\<close>, whose handler
  catches TypeError only.
\<close>

theorem extract_body_specs_raises:
  "body_regex ''1.2.3 cm 100 kg'' = Some (''1.2.3'', ''100'')
   \<and> py_float ''1.2.3'' = Inl ValueError
   \<and> extract_body_specs ''1.2.3 cm 100 kg'' = Inl ValueError"
  by (simp add: body_eval char_class_eval)

text \<open>The documented input, and an input that does not match the pattern.\<close>

lemma extract_body_specs_examples:
  "extract_body_specs ''192 cm 159.2 kg'' = Inr (Some 192, Some (1592 / 10))"
  "extract_body_specs ''-'' = Inr (None, None)"
  by (simp_all add: body_eval char_class_eval)

end
